theory Spec2Isabelle
  imports Complex_Main
begin

section \<open>Python values and primitives used by app.py\<close>

text \<open>
  Numbers: the program computes with Python ints and floats. The file reads them twice.
  In this first part they are the exact reals of HOL, so its statements are about the
  arithmetic the formulas denote, without rounding and without overflow; it is used for the
  properties that do not depend on either. The second part, further down, reads the floats
  as IEEE 754 binary64 values with every operation rounded.
  Exceptions are values: a failing dictionary lookup is \<open>Inl (KeyError k)\<close>, a division by
  zero is \<open>Inl ZeroDivisionError\<close>, a power beyond the range of a float is
  \<open>Inl OverflowError\<close>, a date beyond the range of a timestamp is
  \<open>Inl OutOfBoundsDatetime\<close>.
\<close>

datatype error = KeyError string | ZeroDivisionError | OverflowError | OutOfBoundsDatetime

text \<open>
  A \<open>dict\<close> with string keys, in insertion order (the order in which \<open>for t in gen\<close> and
  \<open>gen.values()\<close> visit it).
\<close>

type_synonym 'v dict = "(string \<times> 'v) list"

text \<open>\<open>d[k]\<close>: raises KeyError on a missing key.\<close>

fun getitem :: "'v dict \<Rightarrow> string \<Rightarrow> error + 'v" where
  "getitem [] k = Inl (KeyError k)"
| "getitem ((k', v) # kvs) k = (if k' = k then Inr v else getitem kvs k)"

text \<open>\<open>d[k] = v\<close>: overwrites in place, or appends a new key at the end.\<close>

fun setitem :: "'v dict \<Rightarrow> string \<Rightarrow> 'v \<Rightarrow> 'v dict" where
  "setitem [] k v = [(k, v)]"
| "setitem ((k', v') # kvs) k v =
     (if k' = k then (k, v) # kvs else (k', v') # setitem kvs k v)"

definition dict_keys :: "'v dict \<Rightarrow> string list" where
  "dict_keys d = map fst d"

definition dict_values :: "'v dict \<Rightarrow> 'v list" where
  "dict_values d = map snd d"

text \<open>\<open>min(a, b)\<close> and \<open>max(a, b)\<close> return the first argument unless the second is strictly
  smaller (larger).\<close>

definition py_min :: "real \<Rightarrow> real \<Rightarrow> real" where
  "py_min a b = (if b < a then b else a)"

definition py_max :: "real \<Rightarrow> real \<Rightarrow> real" where
  "py_max a b = (if b > a then b else a)"

text \<open>\<open>sum(xs)\<close> starts from 0 and adds from the left.\<close>

definition py_sum :: "real list \<Rightarrow> real" where
  "py_sum xs = foldl (+) 0 xs"

text \<open>\<open>a / b\<close> raises ZeroDivisionError when \<open>b\<close> is zero.\<close>

definition py_div :: "real \<Rightarrow> real \<Rightarrow> error + real" where
  "py_div a b = (if b = 0 then Inl ZeroDivisionError else Inr (a / b))"

section \<open>Base data per region (app.py, lines 12--25)\<close>

definition BASE_DEMANDA :: "real dict" where
  "BASE_DEMANDA = [(''Costa'', 12000), (''Sierra'', 7000), (''Selva'', 4000)]"

definition CAPACITIES :: "(real dict) dict" where
  "CAPACITIES =
    [(''Costa'', [(''hydro'', 15000), (''solar'', 8000), (''thermal'', 12000)]),
     (''Sierra'', [(''hydro'', 20000), (''solar'', 3000), (''thermal'', 8000)]),
     (''Selva'', [(''hydro'', 10000), (''solar'', 1000), (''thermal'', 5000)])]"

definition EMISSION_FACTORS :: "real dict" where
  "EMISSION_FACTORS = [(''hydro'', 0.02), (''solar'', 0.03), (''thermal'', 0.8)]"

definition COSTS :: "real dict" where
  "COSTS = [(''hydro'', 30), (''solar'', 40), (''thermal'', 90)]"

section \<open>project_demand (app.py, lines 30--35)\<close>

text \<open>
  The returned DataFrame has two columns, the year (\<open>Anio\<close> here) and \<open>Demanda_MWh\<close>;
  row \<open>i\<close> is the pair of their \<open>i\<close>-th entries.
\<close>

record dataframe =
  Anio :: "int list"
  Demanda_MWh :: "real list"

text \<open>
  \<open>pd.date_range("2025-01-01", periods=years, freq="Y").year\<close>: the year ends following the
  start date, one per period, so the years 2025, 2026, ... The library is not part of the
  repository. Its timestamps end in April 2262, so the year end of 2262, which the 238th
  period would be, raises OutOfBoundsDatetime. For a negative number of periods the list
  is taken as empty, like \<open>range\<close>, and no theorem below depends on that case.
\<close>

definition date_range_year :: "int \<Rightarrow> error + int list" where
  "date_range_year periods =
     (if 237 < periods then Inl OutOfBoundsDatetime
      else Inr (map (\<lambda>i. 2025 + int i) [0..<nat periods]))"

text \<open>\<open>range(years)\<close> is \<open>0, ..., years - 1\<close>, empty when \<open>years \<le> 0\<close>.\<close>

definition py_range :: "int \<Rightarrow> nat list" where
  "py_range n = [0..<nat n]"

definition project_demand :: "string \<Rightarrow> int \<Rightarrow> real \<Rightarrow> error + dataframe" where
  "project_demand region years growth_rate =
     (case getitem BASE_DEMANDA region of
        Inl e \<Rightarrow> Inl e
      | Inr base \<Rightarrow>
     (case date_range_year years of
        Inl e \<Rightarrow> Inl e
      | Inr dates \<Rightarrow>
          (let demand = map (\<lambda>i. base * ((1 + growth_rate) ^ i)) (py_range years)
           in Inr \<lparr>Anio = dates, Demanda_MWh = demand\<rparr>)))"

section \<open>simulate_mix (app.py, lines 43--58)\<close>

record sim_result =
  gen :: "real dict"
  deficit :: real
  emissions :: real
  cost :: real
  cmp :: real

definition mix :: "real dict" where
  "mix = [(''hydro'', 0.5), (''solar'', 0.2), (''thermal'', 0.3)]"

text \<open>\<open>{k: demanda * mix[k] for k in mix}\<close>: one entry per key of \<open>mix\<close>, in its order.\<close>

definition initial_gen :: "real \<Rightarrow> real dict" where
  "initial_gen demanda = map (\<lambda>(k, share). (k, demanda * share)) mix"

text \<open>The loop \<open>for k in [...]: gen[k] = min(gen[k] * factor, caps[k])\<close>.\<close>

fun apply_capacity :: "string list \<Rightarrow> real dict \<Rightarrow> real dict \<Rightarrow> real \<Rightarrow> error + real dict" where
  "apply_capacity [] g caps factor = Inr g"
| "apply_capacity (k # ks) g caps factor =
     (case getitem g k of
        Inl e \<Rightarrow> Inl e
      | Inr x \<Rightarrow>
          (case getitem caps k of
             Inl e \<Rightarrow> Inl e
           | Inr c \<Rightarrow> apply_capacity ks (setitem g k (py_min (x * factor) c)) caps factor))"

text \<open>The generator \<open>gen[t] * TABLE[t] for t in gen\<close>, as the list of its values.\<close>

fun weighted :: "string list \<Rightarrow> real dict \<Rightarrow> real dict \<Rightarrow> error + real list" where
  "weighted [] g tbl = Inr []"
| "weighted (t # ts) g tbl =
     (case getitem g t of
        Inl e \<Rightarrow> Inl e
      | Inr x \<Rightarrow>
          (case getitem tbl t of
             Inl e \<Rightarrow> Inl e
           | Inr w \<Rightarrow>
               (case weighted ts g tbl of
                  Inl e \<Rightarrow> Inl e
                | Inr rest \<Rightarrow> Inr (x * w # rest))))"

definition simulate_mix :: "string \<Rightarrow> real \<Rightarrow> real \<Rightarrow> error + sim_result" where
  "simulate_mix region demanda factor =
     (case getitem CAPACITIES region of
        Inl e \<Rightarrow> Inl e
      | Inr caps \<Rightarrow>
     (case apply_capacity [''hydro'', ''solar''] (initial_gen demanda) caps factor of
        Inl e \<Rightarrow> Inl e
      | Inr gen1 \<Rightarrow>
     (case getitem gen1 ''hydro'' of
        Inl e \<Rightarrow> Inl e
      | Inr h \<Rightarrow>
     (case getitem gen1 ''solar'' of
        Inl e \<Rightarrow> Inl e
      | Inr s \<Rightarrow>
     (case getitem caps ''thermal'' of
        Inl e \<Rightarrow> Inl e
      | Inr ct \<Rightarrow>
     (let gen2 = setitem gen1 ''thermal'' (py_min (demanda - (h + s)) ct);
          deficit' = py_max 0 (demanda - py_sum (dict_values gen2))
      in
     (case weighted (dict_keys gen2) gen2 EMISSION_FACTORS of
        Inl e \<Rightarrow> Inl e
      | Inr emission_terms \<Rightarrow>
     (case weighted (dict_keys gen2) gen2 COSTS of
        Inl e \<Rightarrow> Inl e
      | Inr cost_terms \<Rightarrow>
     (let emissions' = py_sum emission_terms;
          cost' = py_sum cost_terms
      in
     (case (if demanda > 0 then py_div cost' demanda else Inr 0) of
        Inl e \<Rightarrow> Inl e
      | Inr cmp' \<Rightarrow>
          Inr \<lparr>gen = gen2, deficit = deficit', emissions = emissions', cost = cost',
               cmp = cmp'\<rparr>))))))))))"

section \<open>IEEE 754 binary64\<close>

text \<open>
  A Python float is a binary64 value: a finite number \<open>m * 2 ^ e\<close> with \<open>\<bar>m\<bar> < 2 ^ 53\<close> and
  \<open>- 1074 \<le> e \<le> 971\<close>, an infinity or a NaN. The sign of a zero is not represented: no
  comparison or arithmetic result of the program can tell the two zeros apart, as the only
  division is guarded by \<open>demanda > 0\<close>.
\<close>

datatype f64 = Fin real | PInf | NInf | NaN

definition pow2 :: "int \<Rightarrow> real" where
  "pow2 k = (if 0 \<le> k then 2 ^ nat k else 1 / 2 ^ nat (- k))"

text \<open>The binary exponent of \<open>a\<close>, searched between \<open>lo\<close> and \<open>hi\<close> by bisection.\<close>

function exponent_search :: "int \<Rightarrow> int \<Rightarrow> real \<Rightarrow> int" where
  "exponent_search lo hi a =
     (if hi - lo \<le> 1 then lo
      else (let mid = (lo + hi) div 2
            in if pow2 mid \<le> a then exponent_search mid hi a
               else exponent_search lo mid a))"
  by pat_completeness auto
termination
  by (relation "measure (\<lambda>(lo, hi, a). nat (hi - lo))") auto

text \<open>The nearest integer, a tie going to the even one.\<close>

definition round_half_even :: "real \<Rightarrow> int" where
  "round_half_even y =
     (let n = \<lfloor>y\<rfloor>; r = y - of_int n
      in if r < 1 / 2 then n
         else if 1 / 2 < r then n + 1
         else if even n then n else n + 1)"

text \<open>
  Rounding of a real to the nearest binary64 value (the default rounding mode): 53
  significant bits for a normal number, multiples of \<open>2 ^ - 1074\<close> below \<open>2 ^ - 1022\<close>, and
  an infinity when the rounded magnitude reaches \<open>2 ^ 1024\<close>. Also the value of a decimal
  literal such as \<open>0.2\<close>.
\<close>

definition round_f64 :: "real \<Rightarrow> f64" where
  "round_f64 x =
     (let a = \<bar>x\<bar>
      in if a = 0 then Fin 0
         else if pow2 1024 \<le> a then (if x < 0 then NInf else PInf)
         else (let e = (if a < pow2 (- 1022) then - 1022
                        else exponent_search (- 1022) 1024 a);
                   q = pow2 (e - 52);
                   r = of_int (round_half_even (a / q)) * q
               in if pow2 1024 \<le> r then (if x < 0 then NInf else PInf)
                  else Fin (if x < 0 then - r else r)))"

definition is_f64 :: "real \<Rightarrow> bool" where
  "is_f64 x = (round_f64 x = Fin x)"

fun f64_neg :: "f64 \<Rightarrow> f64" where
  "f64_neg (Fin a) = Fin (- a)"
| "f64_neg PInf = NInf"
| "f64_neg NInf = PInf"
| "f64_neg NaN = NaN"

fun f64_sgn :: "f64 \<Rightarrow> int" where
  "f64_sgn (Fin a) = (if a < 0 then - 1 else if a = 0 then 0 else 1)"
| "f64_sgn PInf = 1"
| "f64_sgn NInf = - 1"
| "f64_sgn NaN = 0"

fun f64_add :: "f64 \<Rightarrow> f64 \<Rightarrow> f64" where
  "f64_add (Fin a) (Fin b) = round_f64 (a + b)"
| "f64_add NaN y = NaN"
| "f64_add x NaN = NaN"
| "f64_add PInf NInf = NaN"
| "f64_add NInf PInf = NaN"
| "f64_add PInf y = PInf"
| "f64_add x PInf = PInf"
| "f64_add NInf y = NInf"
| "f64_add x NInf = NInf"

definition f64_sub :: "f64 \<Rightarrow> f64 \<Rightarrow> f64" where
  "f64_sub x y = f64_add x (f64_neg y)"

fun f64_mul :: "f64 \<Rightarrow> f64 \<Rightarrow> f64" where
  "f64_mul (Fin a) (Fin b) = round_f64 (a * b)"
| "f64_mul NaN y = NaN"
| "f64_mul x NaN = NaN"
| "f64_mul x y =
     (let s = f64_sgn x * f64_sgn y
      in if s = 0 then NaN else if s < 0 then NInf else PInf)"

text \<open>\<open>x < y\<close> on floats; every comparison with a NaN is false.\<close>

fun f64_lt :: "f64 \<Rightarrow> f64 \<Rightarrow> bool" where
  "f64_lt (Fin a) (Fin b) = (a < b)"
| "f64_lt NaN y = False"
| "f64_lt x NaN = False"
| "f64_lt PInf y = False"
| "f64_lt x NInf = False"
| "f64_lt NInf y = True"
| "f64_lt x PInf = True"

section \<open>Python operations on floats\<close>

text \<open>\<open>x / y\<close>: raises ZeroDivisionError when \<open>y\<close> is zero, whatever \<open>x\<close> is.\<close>

fun py_div_f64 :: "f64 \<Rightarrow> f64 \<Rightarrow> error + f64" where
  "py_div_f64 (Fin a) (Fin b) =
     (if b = 0 then Inl ZeroDivisionError else Inr (round_f64 (a / b)))"
| "py_div_f64 x (Fin b) =
     (if b = 0 then Inl ZeroDivisionError
      else if x = NaN then Inr NaN
      else Inr (if f64_sgn x * f64_sgn (Fin b) < 0 then NInf else PInf))"
| "py_div_f64 NaN y = Inr NaN"
| "py_div_f64 x NaN = Inr NaN"
| "py_div_f64 (Fin a) y = Inr (Fin 0)"
| "py_div_f64 x y = Inr NaN"

text \<open>
  \<open>x ** i\<close> for a float \<open>x\<close> and an int \<open>i \<ge> 0\<close>. The interpreter answers the special
  cases itself (exponent 0, NaN, infinities, base 0 and base \<open>\<plusminus>1\<close>), takes the sign out, and
  hands a positive finite base other than 1 to the \<open>pow\<close> of the C library; an infinite
  result there is raised as OverflowError. The C function is not part of the repository
  and its last bit differs between libraries, so it is the parameter \<open>libm_pow\<close>.
\<close>

definition py_pow_f64 :: "(real \<Rightarrow> nat \<Rightarrow> f64) \<Rightarrow> f64 \<Rightarrow> nat \<Rightarrow> error + f64" where
  "py_pow_f64 libm_pow x i =
     (if i = 0 then Inr (Fin 1)
      else (case x of
              NaN \<Rightarrow> Inr NaN
            | PInf \<Rightarrow> Inr PInf
            | NInf \<Rightarrow> Inr (if odd i then NInf else PInf)
            | Fin a \<Rightarrow>
                if a = 0 then Inr (Fin 0)
                else if \<bar>a\<bar> = 1 then Inr (Fin (if a < 0 \<and> odd i then - 1 else 1))
                else (case libm_pow \<bar>a\<bar> i of
                        Fin r \<Rightarrow> Inr (Fin (if a < 0 \<and> odd i then - r else r))
                      | NaN \<Rightarrow> Inr NaN
                      | _ \<Rightarrow> Inl OverflowError)))"

text \<open>The correctly rounded power: what a \<open>pow\<close> returns on all but a few arguments.\<close>

definition cr_pow :: "real \<Rightarrow> nat \<Rightarrow> f64" where
  "cr_pow a i = round_f64 (a ^ i)"

definition py_min_f64 :: "f64 \<Rightarrow> f64 \<Rightarrow> f64" where
  "py_min_f64 a b = (if f64_lt b a then b else a)"

definition py_max_f64 :: "f64 \<Rightarrow> f64 \<Rightarrow> f64" where
  "py_max_f64 a b = (if f64_lt a b then b else a)"

text \<open>
  \<open>sum(xs)\<close>: starts from the int 0 and adds from the left, each addition rounded (the
  interpreters before 3.12; later ones add a correction term at the end).
\<close>

definition py_sum_f64 :: "f64 list \<Rightarrow> f64" where
  "py_sum_f64 xs = foldl f64_add (Fin 0) xs"

text \<open>The entries of a table as floats: a decimal literal is rounded, an int is exact.\<close>

definition as_f64 :: "real dict \<Rightarrow> f64 dict" where
  "as_f64 d = map (\<lambda>(k, v). (k, round_f64 v)) d"

section \<open>project_demand on floats\<close>

record dataframe_f64 =
  Anio_f64 :: "int list"
  Demanda_MWh_f64 :: "f64 list"

text \<open>The comprehension \<open>[base * ((1 + growth_rate) ** i) for i in range(years)]\<close>; the
  first power that overflows ends it.\<close>

fun demand_list ::
  "(real \<Rightarrow> nat \<Rightarrow> f64) \<Rightarrow> f64 \<Rightarrow> f64 \<Rightarrow> nat list \<Rightarrow> error + f64 list" where
  "demand_list libm_pow base growth_rate [] = Inr []"
| "demand_list libm_pow base growth_rate (i # is) =
     (case py_pow_f64 libm_pow (f64_add (Fin 1) growth_rate) i of
        Inl e \<Rightarrow> Inl e
      | Inr p \<Rightarrow>
          (case demand_list libm_pow base growth_rate is of
             Inl e \<Rightarrow> Inl e
           | Inr rest \<Rightarrow> Inr (f64_mul base p # rest)))"

definition project_demand_f64 ::
  "(real \<Rightarrow> nat \<Rightarrow> f64) \<Rightarrow> string \<Rightarrow> int \<Rightarrow> f64 \<Rightarrow> error + dataframe_f64" where
  "project_demand_f64 libm_pow region years growth_rate =
     (case getitem (as_f64 BASE_DEMANDA) region of
        Inl e \<Rightarrow> Inl e
      | Inr base \<Rightarrow>
     (case date_range_year years of
        Inl e \<Rightarrow> Inl e
      | Inr dates \<Rightarrow>
     (case demand_list libm_pow base growth_rate (py_range years) of
        Inl e \<Rightarrow> Inl e
      | Inr demand \<Rightarrow> Inr \<lparr>Anio_f64 = dates, Demanda_MWh_f64 = demand\<rparr>)))"

section \<open>simulate_mix on floats\<close>

record sim_result_f64 =
  gen_f64 :: "f64 dict"
  deficit_f64 :: f64
  emissions_f64 :: f64
  cost_f64 :: f64
  cmp_f64 :: f64

definition initial_gen_f64 :: "f64 \<Rightarrow> f64 dict" where
  "initial_gen_f64 demanda = map (\<lambda>(k, share). (k, f64_mul demanda share)) (as_f64 mix)"

fun apply_capacity_f64 ::
  "string list \<Rightarrow> f64 dict \<Rightarrow> f64 dict \<Rightarrow> f64 \<Rightarrow> error + f64 dict" where
  "apply_capacity_f64 [] g caps factor = Inr g"
| "apply_capacity_f64 (k # ks) g caps factor =
     (case getitem g k of
        Inl e \<Rightarrow> Inl e
      | Inr x \<Rightarrow>
          (case getitem caps k of
             Inl e \<Rightarrow> Inl e
           | Inr c \<Rightarrow>
               apply_capacity_f64 ks (setitem g k (py_min_f64 (f64_mul x factor) c))
                 caps factor))"

fun weighted_f64 :: "string list \<Rightarrow> f64 dict \<Rightarrow> f64 dict \<Rightarrow> error + f64 list" where
  "weighted_f64 [] g tbl = Inr []"
| "weighted_f64 (t # ts) g tbl =
     (case getitem g t of
        Inl e \<Rightarrow> Inl e
      | Inr x \<Rightarrow>
          (case getitem tbl t of
             Inl e \<Rightarrow> Inl e
           | Inr w \<Rightarrow>
               (case weighted_f64 ts g tbl of
                  Inl e \<Rightarrow> Inl e
                | Inr rest \<Rightarrow> Inr (f64_mul x w # rest))))"

definition simulate_mix_f64 :: "string \<Rightarrow> f64 \<Rightarrow> f64 \<Rightarrow> error + sim_result_f64" where
  "simulate_mix_f64 region demanda factor =
     (case getitem CAPACITIES region of
        Inl e \<Rightarrow> Inl e
      | Inr caps_table \<Rightarrow>
     (let caps = as_f64 caps_table
      in
     (case apply_capacity_f64 [''hydro'', ''solar''] (initial_gen_f64 demanda) caps factor of
        Inl e \<Rightarrow> Inl e
      | Inr gen1 \<Rightarrow>
     (case getitem gen1 ''hydro'' of
        Inl e \<Rightarrow> Inl e
      | Inr h \<Rightarrow>
     (case getitem gen1 ''solar'' of
        Inl e \<Rightarrow> Inl e
      | Inr s \<Rightarrow>
     (case getitem caps ''thermal'' of
        Inl e \<Rightarrow> Inl e
      | Inr ct \<Rightarrow>
     (let gen2 = setitem gen1 ''thermal'' (py_min_f64 (f64_sub demanda (f64_add h s)) ct);
          deficit' = py_max_f64 (Fin 0) (f64_sub demanda (py_sum_f64 (dict_values gen2)))
      in
     (case weighted_f64 (dict_keys gen2) gen2 (as_f64 EMISSION_FACTORS) of
        Inl e \<Rightarrow> Inl e
      | Inr emission_terms \<Rightarrow>
     (case weighted_f64 (dict_keys gen2) gen2 (as_f64 COSTS) of
        Inl e \<Rightarrow> Inl e
      | Inr cost_terms \<Rightarrow>
     (let emissions' = py_sum_f64 emission_terms;
          cost' = py_sum_f64 cost_terms
      in
     (case (if f64_lt (Fin 0) demanda then py_div_f64 cost' demanda else Inr (Fin 0)) of
        Inl e \<Rightarrow> Inl e
      | Inr cmp' \<Rightarrow>
          Inr \<lparr>gen_f64 = gen2, deficit_f64 = deficit', emissions_f64 = emissions',
               cost_f64 = cost', cmp_f64 = cmp'\<rparr>)))))))))))"

section \<open>Evaluation lemmas\<close>

text \<open>On the reals, Python's \<open>min\<close> and \<open>max\<close> of two numbers are the lattice operations.\<close>

lemma py_min_eq: "py_min a b = min a b"
  by (simp add: py_min_def min_def)

lemma py_max_eq: "py_max a b = max a b"
  by (simp add: py_max_def max_def)

text \<open>The three regions of the tables, and every other key.\<close>

lemma getitem_CAPACITIES_known:
  assumes "region \<in> {''Costa'', ''Sierra'', ''Selva''}"
  shows "\<exists>ch cs ct.
           getitem CAPACITIES region = Inr [(''hydro'', ch), (''solar'', cs), (''thermal'', ct)]
           \<and> 0 < ch \<and> 0 < cs \<and> 0 < ct"
  using assms by (auto simp: CAPACITIES_def)

lemma getitem_CAPACITIES_unknown:
  assumes "region \<notin> {''Costa'', ''Sierra'', ''Selva''}"
  shows "getitem CAPACITIES region = Inl (KeyError region)"
  using assms by (auto simp: CAPACITIES_def)

lemma getitem_BASE_DEMANDA_known:
  assumes "region \<in> {''Costa'', ''Sierra'', ''Selva''}"
  shows "\<exists>base. getitem BASE_DEMANDA region = Inr base \<and> 0 < base"
  using assms by (auto simp: BASE_DEMANDA_def)

text \<open>
  The whole of \<open>simulate_mix\<close> for a region whose capacities are \<open>ch\<close>, \<open>cs\<close>, \<open>ct\<close>: every
  lookup succeeds and the result is the record below.
\<close>

lemma simulate_mix_eval:
  assumes caps:
      "getitem CAPACITIES region = Inr [(''hydro'', ch), (''solar'', cs), (''thermal'', ct)]"
    and h: "h = min (d * 0.5 * f) ch"
    and s: "s = min (d * 0.2 * f) cs"
    and t: "t = min (d - (h + s)) ct"
  shows "simulate_mix region d f =
     Inr \<lparr>gen = [(''hydro'', h), (''solar'', s), (''thermal'', t)],
          deficit = max 0 (d - (h + s + t)),
          emissions = h * 0.02 + s * 0.03 + t * 0.8,
          cost = h * 30 + s * 40 + t * 90,
          cmp = (if d > 0 then (h * 30 + s * 40 + t * 90) / d else 0)\<rparr>"
  unfolding h s t
  by (simp add: simulate_mix_def caps initial_gen_def mix_def py_min_eq py_max_eq
      py_sum_def dict_values_def dict_keys_def EMISSION_FACTORS_def COSTS_def py_div_def
      Let_def)

lemma project_demand_eval:
  assumes "getitem BASE_DEMANDA region = Inr base" and "years \<le> 237"
  shows "project_demand region years growth_rate =
     Inr \<lparr>Anio = map (\<lambda>i. 2025 + int i) [0..<nat years],
          Demanda_MWh = map (\<lambda>i. base * (1 + growth_rate) ^ i) [0..<nat years]\<rparr>"
  using assms(2) by (simp add: project_demand_def assms(1) date_range_year_def py_range_def)

section \<open>Generation mix\<close>

text \<open>
  C2. For a region of the table, a demand \<open>\<ge> 0\<close> and a climate factor \<open>> 0\<close>, the hydro and
  solar generation returned by \<open>simulate_mix\<close> are
  \<open>min (demand * share * factor) capacity\<close> with the shares 0.5 and 0.2 of \<open>mix\<close>; both are
  \<open>\<ge> 0\<close> and at most the region's capacity for the technology.
\<close>

theorem hydro_solar_clamped:
  assumes "region \<in> {''Costa'', ''Sierra'', ''Selva''}" and "0 \<le> demanda" and "0 < factor"
  shows "\<exists>r caps ch cs.
             simulate_mix region demanda factor = Inr r
           \<and> getitem CAPACITIES region = Inr caps
           \<and> getitem caps ''hydro'' = Inr ch \<and> getitem caps ''solar'' = Inr cs
           \<and> getitem mix ''hydro'' = Inr 0.5 \<and> getitem mix ''solar'' = Inr 0.2
           \<and> getitem (gen r) ''hydro'' = Inr (min (demanda * 0.5 * factor) ch)
           \<and> getitem (gen r) ''solar'' = Inr (min (demanda * 0.2 * factor) cs)
           \<and> 0 \<le> min (demanda * 0.5 * factor) ch \<and> min (demanda * 0.5 * factor) ch \<le> ch
           \<and> 0 \<le> min (demanda * 0.2 * factor) cs \<and> min (demanda * 0.2 * factor) cs \<le> cs"
proof -
  from assms(1) obtain ch cs ct where
    caps: "getitem CAPACITIES region = Inr [(''hydro'', ch), (''solar'', cs), (''thermal'', ct)]"
    and pos: "0 < ch" "0 < cs" "0 < ct"
    using getitem_CAPACITIES_known by blast
  have nn: "0 \<le> demanda * 0.5 * factor" "0 \<le> demanda * 0.2 * factor"
    using assms(2,3) by simp_all
  show ?thesis
    using pos nn by (simp add: simulate_mix_eval [OF caps refl refl refl] caps mix_def)
qed

theorem hydro_solar_clamped_witness:
  "\<exists>r. simulate_mix ''Selva'' 4000 0.8 = Inr r
      \<and> getitem (gen r) ''hydro'' = Inr 1600 \<and> getitem (gen r) ''solar'' = Inr 640"
  using hydro_solar_clamped [of "''Selva''" 4000 "0.8"]
  by (auto simp: CAPACITIES_def mix_def)

text \<open>
  C3. There are inputs in the stated domain (a region of the table, demand \<open>\<ge> 0\<close>, factor
  \<open>> 0\<close>) at which the thermal generation is strictly negative: it is
  \<open>min (demand - (hydro + solar)) capacity\<close>, with no lower bound. Costa with demand 10000
  and factor 2 gives hydro 10000, solar 4000 and thermal \<open>-4000\<close>.
\<close>

theorem thermal_can_be_negative:
  "\<exists>region demanda factor r caps ct h s t.
       region \<in> {''Costa'', ''Sierra'', ''Selva''} \<and> 0 \<le> demanda \<and> 0 < factor
     \<and> simulate_mix region demanda factor = Inr r
     \<and> getitem CAPACITIES region = Inr caps \<and> getitem caps ''thermal'' = Inr ct
     \<and> getitem (gen r) ''hydro'' = Inr h \<and> getitem (gen r) ''solar'' = Inr s
     \<and> getitem (gen r) ''thermal'' = Inr t
     \<and> t = min (demanda - (h + s)) ct \<and> t < 0"
proof -
  have caps: "getitem CAPACITIES ''Costa'' =
      Inr [(''hydro'', 15000), (''solar'', 8000), (''thermal'', 12000)]"
    by (simp add: CAPACITIES_def)
  have sim: "simulate_mix ''Costa'' 10000 2 =
     Inr \<lparr>gen = [(''hydro'', 10000), (''solar'', 4000), (''thermal'', - 4000)],
          deficit = 0, emissions = - 2880, cost = 100000, cmp = 10\<rparr>"
    by (simp add: simulate_mix_eval [OF caps refl refl refl])
  show ?thesis
    apply (rule exI [of _ "''Costa''"])
    apply (rule exI [of _ 10000])
    apply (rule exI [of _ 2])
    apply (simp add: sim caps)
    done
qed

text \<open>
  C4. For a region of the table, a demand \<open>\<ge> 0\<close> and a climate factor \<open>> 0\<close>, the deficit
  returned by \<open>simulate_mix\<close> is \<open>max 0 (demand - (hydro + solar + thermal))\<close> of the returned
  generation, hence \<open>\<ge> 0\<close>.
\<close>

theorem deficit_nonneg:
  assumes "region \<in> {''Costa'', ''Sierra'', ''Selva''}" and "0 \<le> demanda" and "0 < factor"
  shows "\<exists>r h s t. simulate_mix region demanda factor = Inr r
           \<and> getitem (gen r) ''hydro'' = Inr h \<and> getitem (gen r) ''solar'' = Inr s
           \<and> getitem (gen r) ''thermal'' = Inr t
           \<and> deficit r = max 0 (demanda - (h + s + t)) \<and> 0 \<le> deficit r"
proof -
  from assms(1) obtain ch cs ct where
    caps: "getitem CAPACITIES region = Inr [(''hydro'', ch), (''solar'', cs), (''thermal'', ct)]"
    using getitem_CAPACITIES_known by blast
  show ?thesis
    by (simp add: simulate_mix_eval [OF caps refl refl refl])
qed

theorem deficit_nonneg_witness:
  "\<exists>r. simulate_mix ''Selva'' 100000 1 = Inr r \<and> deficit r = 84000"
  using deficit_nonneg [of "''Selva''" 100000 1]
  by (auto simp: simulate_mix_eval [OF _ refl refl refl] CAPACITIES_def)

text \<open>
  C5. For a region of the table and a climate factor \<open>> 0\<close>, \<open>simulate_mix\<close> returns a result
  (the division never raises) whose marginal cost is \<open>cost / demand\<close> when the demand is
  positive and 0 when the demand is 0; with demand 0 the hydro, solar and thermal
  generation are all 0.
\<close>

theorem marginal_cost_guarded:
  assumes "region \<in> {''Costa'', ''Sierra'', ''Selva''}" and "0 < factor"
  shows "\<exists>r. simulate_mix region demanda factor = Inr r
           \<and> (0 < demanda \<longrightarrow> cmp r = cost r / demanda)
           \<and> (demanda = 0 \<longrightarrow> cmp r = 0
                 \<and> gen r = [(''hydro'', 0), (''solar'', 0), (''thermal'', 0)])"
proof -
  from assms(1) obtain ch cs ct where
    caps: "getitem CAPACITIES region = Inr [(''hydro'', ch), (''solar'', cs), (''thermal'', ct)]"
    and pos: "0 < ch" "0 < cs" "0 < ct"
    using getitem_CAPACITIES_known by blast
  show ?thesis
    using pos by (simp add: simulate_mix_eval [OF caps refl refl refl])
qed

theorem marginal_cost_guarded_witness:
  "(\<exists>r. simulate_mix ''Costa'' 0 1 = Inr r \<and> cmp r = 0
        \<and> gen r = [(''hydro'', 0), (''solar'', 0), (''thermal'', 0)])
   \<and> (\<exists>r. simulate_mix ''Sierra'' 7000 1 = Inr r \<and> cmp r = cost r / 7000)"
  using marginal_cost_guarded [of "''Costa''" 1 0]
    marginal_cost_guarded [of "''Sierra''" 1 7000]
  by auto

text \<open>
  C9. Costa with demand 12000 and climate factor 1.0: generation hydro 6000, solar 2400,
  thermal 3600, deficit 0, emissions 3072, cost 600000 and marginal cost 50, with the
  table entries the scenario quotes.
\<close>

theorem costa_normal_year0:
  "simulate_mix ''Costa'' 12000 1.0 =
     Inr \<lparr>gen = [(''hydro'', 6000), (''solar'', 2400), (''thermal'', 3600)],
          deficit = 0, emissions = 3072, cost = 600000, cmp = 50.0\<rparr>
   \<and> getitem BASE_DEMANDA ''Costa'' = Inr 12000
   \<and> getitem CAPACITIES ''Costa'' =
       Inr [(''hydro'', 15000), (''solar'', 8000), (''thermal'', 12000)]
   \<and> EMISSION_FACTORS = [(''hydro'', 0.02), (''solar'', 0.03), (''thermal'', 0.8)]
   \<and> COSTS = [(''hydro'', 30), (''solar'', 40), (''thermal'', 90)]"
proof -
  have caps: "getitem CAPACITIES ''Costa'' =
      Inr [(''hydro'', 15000), (''solar'', 8000), (''thermal'', 12000)]"
    by (simp add: CAPACITIES_def)
  show ?thesis
    by (simp add: simulate_mix_eval [OF caps refl refl refl] caps BASE_DEMANDA_def
        EMISSION_FACTORS_def COSTS_def)
qed

section \<open>Input validation\<close>

text \<open>
  The stated rejection of a negative demand or a non-positive climate factor does not
  happen: both calls below return a result.
\<close>

theorem simulate_mix_no_validation_counterexample:
  "simulate_mix ''Costa'' (- 10) 1 =
     Inr \<lparr>gen = [(''hydro'', - 5), (''solar'', - 2), (''thermal'', - 3)],
          deficit = 0, emissions = - 2.56, cost = - 500, cmp = 0\<rparr>
   \<and> simulate_mix ''Costa'' 100 0 =
     Inr \<lparr>gen = [(''hydro'', 0), (''solar'', 0), (''thermal'', 100)],
          deficit = 0, emissions = 80, cost = 9000, cmp = 90\<rparr>"
proof -
  have caps: "getitem CAPACITIES ''Costa'' =
      Inr [(''hydro'', 15000), (''solar'', 8000), (''thermal'', 12000)]"
    by (simp add: CAPACITIES_def)
  show ?thesis
    by (simp add: simulate_mix_eval [OF caps refl refl refl])
qed

text \<open>
  C6, as the code has it. \<open>simulate_mix\<close> checks neither the demand nor the climate factor:
  for a region of the table it returns a result for every demand and every factor, negative
  or zero ones included. For any other region the lookup in \<open>CAPACITIES\<close> fails with a
  KeyError carrying the region, and no result is produced.
\<close>

theorem simulate_mix_errors:
  "(region \<in> {''Costa'', ''Sierra'', ''Selva''}
      \<longrightarrow> (\<exists>r. simulate_mix region demanda factor = Inr r))
   \<and> (region \<notin> {''Costa'', ''Sierra'', ''Selva''}
      \<longrightarrow> simulate_mix region demanda factor = Inl (KeyError region))"
proof (intro conjI impI)
  assume "region \<in> {''Costa'', ''Sierra'', ''Selva''}"
  then obtain ch cs ct where
    caps: "getitem CAPACITIES region = Inr [(''hydro'', ch), (''solar'', cs), (''thermal'', ct)]"
    using getitem_CAPACITIES_known by blast
  show "\<exists>r. simulate_mix region demanda factor = Inr r"
    by (simp add: simulate_mix_eval [OF caps refl refl refl])
next
  assume "region \<notin> {''Costa'', ''Sierra'', ''Selva''}"
  then show "simulate_mix region demanda factor = Inl (KeyError region)"
    by (simp add: simulate_mix_def getitem_CAPACITIES_unknown)
qed

theorem simulate_mix_errors_witness:
  "(\<exists>r. simulate_mix ''Selva'' (- 1) (- 1) = Inr r)
   \<and> simulate_mix ''Lima'' 100 1 = Inl (KeyError ''Lima'')"
  using simulate_mix_errors [of "''Selva''" "- 1" "- 1"]
    simulate_mix_errors [of "''Lima''" 100 1]
  by simp

text \<open>
  The stated rejection of a horizon of zero years does not happen: the call returns a
  frame with no rows.
\<close>

theorem project_demand_zero_years_counterexample:
  "project_demand ''Costa'' 0 0.04 = Inr \<lparr>Anio = [], Demanda_MWh = []\<rparr>"
  by (simp add: project_demand_def BASE_DEMANDA_def date_range_year_def py_range_def)

text \<open>
  C7, as the code has it. \<open>project_demand\<close> does not check the horizon: for a region of the
  table and a horizon of 0 years it returns the empty frame, without an error.
\<close>

theorem project_demand_zero_years:
  assumes "region \<in> {''Costa'', ''Sierra'', ''Selva''}"
  shows "project_demand region 0 growth_rate = Inr \<lparr>Anio = [], Demanda_MWh = []\<rparr>"
proof -
  from assms obtain base where base: "getitem BASE_DEMANDA region = Inr base"
    using getitem_BASE_DEMANDA_known by blast
  show ?thesis
    by (simp add: project_demand_eval [OF base])
qed

theorem project_demand_zero_years_witness:
  "''Selva'' \<in> {''Costa'', ''Sierra'', ''Selva''}
   \<and> project_demand ''Selva'' 0 0.1 = Inr \<lparr>Anio = [], Demanda_MWh = []\<rparr>"
  using project_demand_zero_years [of "''Selva''" "0.1"]
  by simp

end
